theory Spec2Isabelle
  imports Main "HOL-Library.Finite_Map" "HOL-Library.Char_ord" "HOL-Library.List_Lexorder"
begin

section \<open>The remote Alertmanager gateway (pkg/services/ngalert/remote/alertmanager.go)\<close>

text \<open>
  The gateway relays silences, alerts and the alerting configuration to a remote
  Alertmanager. Its collaborators (the network, the alert sender, the configuration
  store, the generated API client, the JSON codec of types declared elsewhere, the
  clock) are parameters of the model; the gateway's own control flow is embedded
  function by function, every early return being a branch. Each method returns its
  result, the gateway after the call and the effects it performed, in order.
\<close>

subsection \<open>Strings and formatting\<close>

text \<open>\<^verbatim>\<open>strings.TrimSuffix\<close>: the suffix is removed once, when present.\<close>

definition TrimSuffix :: "string \<Rightarrow> string \<Rightarrow> string" where
  "TrimSuffix s suffix =
     (if length suffix \<le> length s \<and> drop (length s - length suffix) s = suffix
      then take (length s - length suffix) s else s)"

text \<open>The verb \<^verbatim>\<open>%d\<close> of the formatting package: decimal digits, a minus sign first.\<close>

fun digits :: "nat \<Rightarrow> string" where
  "digits n = (if n < 10 then [''0123456789'' ! n]
               else digits (n div 10) @ [''0123456789'' ! (n mod 10)])"

definition fmt_d :: "int \<Rightarrow> string" where
  "fmt_d i = (if i < 0 then CHR ''-'' # digits (nat (- i)) else digits (nat i))"

subsection \<open>Errors\<close>

text \<open>
  One constructor for each place where the file builds an error, one for the sentinel
  \<^verbatim>\<open>notifier.ErrAlertmanagerNotReady\<close>, and \<open>External\<close> for an error value that a
  collaborator returned and the gateway passes on or wraps, named by the text of its
  cause.
\<close>

datatype error =
    External string
  | EmptyURL string
  | CreatingReadinessRequest error
  | PerformingReadinessCheck error
  | ErrAlertmanagerNotReady
  | NotReadyStatusCode int
  | SerializeConfiguration error
  | MarshalingConfiguration error
  | CreatingRequest error
  | UnexpectedStatusCode int
  | ReadingResponse error
  | SettingConfigFailed int
  | ConfigNotFound
  | UnmarshalingRemoteConfiguration error

text \<open>
  How a call into the generated API client ends: it returns, or it panics with a value.
  A method of the gateway ends the same way; a panic that leaves a method ends the
  process.
\<close>

datatype 'r outcome = Returns 'r | Panics string

subsection \<open>JSON values\<close>

text \<open>
  A body on the wire is given by the JSON value its bytes denote. An object is a finite
  map from member names to values: the order of the members is outside the model, and
  a name that is repeated denotes the value given last, as \<^verbatim>\<open>json.Unmarshal\<close> reads it.
\<close>

datatype json =
    JNull
  | JBool bool
  | JNumber int
  | JString string
  | JArray "json list"
  | JObject "(string, json) fmap"

subsection \<open>Strings in JSON text\<close>

text \<open>
  \<^verbatim>\<open>utf8.DecodeRuneInString\<close>, as far as the JSON encoder uses it: the width in bytes
  of the rune at the front of a string, and 0 where the library returns \<^verbatim>\<open>RuneError\<close>
  with width 1 (the bytes at the front are not a UTF-8 encoding).
\<close>

definition byte_in :: "nat \<Rightarrow> nat \<Rightarrow> char \<Rightarrow> bool" where
  "byte_in lo hi c = (lo \<le> of_char c \<and> of_char c \<le> hi)"

fun DecodeRune_width :: "string \<Rightarrow> nat" where
  "DecodeRune_width [] = 0"
| "DecodeRune_width (c0 # rest) =
     (let b0 = (of_char c0 :: nat)
      in if b0 < 0x80 then 1
         else if b0 < 0xC2 then 0
         else if b0 < 0xE0 then
           (case rest of
              c1 # _ \<Rightarrow> if byte_in 0x80 0xBF c1 then 2 else 0
            | _ \<Rightarrow> 0)
         else if b0 < 0xF0 then
           (case rest of
              c1 # c2 # _ \<Rightarrow>
                if byte_in (if b0 = 0xE0 then 0xA0 else 0x80) (if b0 = 0xED then 0x9F else 0xBF) c1
                   \<and> byte_in 0x80 0xBF c2
                then 3 else 0
            | _ \<Rightarrow> 0)
         else if b0 < 0xF5 then
           (case rest of
              c1 # c2 # c3 # _ \<Rightarrow>
                if byte_in (if b0 = 0xF0 then 0x90 else 0x80) (if b0 = 0xF4 then 0x8F else 0xBF) c1
                   \<and> byte_in 0x80 0xBF c2 \<and> byte_in 0x80 0xBF c3
                then 4 else 0
            | _ \<Rightarrow> 0)
         else 0)"

text \<open>The UTF-8 encoding of U+FFFD, the replacement character.\<close>

definition RuneError_bytes :: string where
  "RuneError_bytes = [CHR 0xEF, CHR 0xBF, CHR 0xBD]"

text \<open>
  The string that the JSON text of a Go string denotes: \<^verbatim>\<open>json.Marshal\<close> writes every
  byte that does not start a UTF-8 encoding as \<^verbatim>\<open>\ufffd\<close> and keeps the rest (its
  escapes denote the characters they stand for).
\<close>

function json_string :: "string \<Rightarrow> string" where
  "json_string [] = []"
| "json_string (c # cs) =
     (let n = DecodeRune_width (c # cs)
      in if n = 0 then RuneError_bytes @ json_string cs
         else take n (c # cs) @ json_string (drop n (c # cs)))"
  by pat_completeness auto
termination
  by (relation "measure length") auto


text \<open>
  \<^verbatim>\<open>json.Marshal\<close> at \<^verbatim>\<open>map[string]string\<close>, for a map that is not nil: the members are
  written in the order of the keys, key and value as JSON strings; where two keys are
  written as the same name, the object denotes the value written last.
\<close>

definition json_Marshal_map :: "(string, string) fmap \<Rightarrow> json" where
  "json_Marshal_map m =
     JObject (fmap_of_list (rev (map (\<lambda>(k, v). (json_string k, JString (json_string v)))
                                    (sorted_list_of_fmap m))))"

subsection \<open>HTTP requests and responses\<close>

text \<open>
  A header value is text, or the basic-auth credentials that \<^verbatim>\<open>SetBasicAuth\<close> encodes
  into the \<^verbatim>\<open>Authorization\<close> header. Header names are kept as the code writes them
  (they are case-insensitive on the wire). The request body is absent for a GET.
\<close>

datatype header_value = Plain string | BasicAuth string string

record Request =
  Method :: string
  ReqURL :: string
  Header :: "string \<rightharpoonup> header_value"
  Body :: "json option"

text \<open>
  A response: its status code, what \<^verbatim>\<open>io.ReadAll\<close> gives on its body (an error, or
  the bytes: \<open>None\<close> when they are not JSON text) and what closing the body returns.
\<close>

record Response =
  StatusCode :: int
  ReadAll :: "error + json option"
  Close :: "error option"

definition Header_Set :: "Request \<Rightarrow> string \<Rightarrow> header_value \<Rightarrow> Request" where
  "Header_Set req k v = req\<lparr>Header := (Header req)(k \<mapsto> v)\<rparr>"

definition SetBasicAuth :: "Request \<Rightarrow> string \<Rightarrow> string \<Rightarrow> Request" where
  "SetBasicAuth req username password =
     Header_Set req ''Authorization'' (BasicAuth username password)"

subsection \<open>The transport decorator\<close>

record roundTripper =
  rt_tenantID :: string
  rt_basicAuthPassword :: string

text \<open>\<^verbatim>\<open>roundTripper.RoundTrip\<close>; \<open>next\<close> is the transport it wraps.\<close>

definition RoundTrip :: "roundTripper \<Rightarrow> (Request \<Rightarrow> 'r) \<Rightarrow> Request \<Rightarrow> 'r" where
  "RoundTrip r next req =
     (let req1 = Header_Set req ''X-Scope-OrgID'' (Plain (rt_tenantID r));
          req2 = (if rt_tenantID r \<noteq> '''' \<and> rt_basicAuthPassword r \<noteq> ''''
                  then SetBasicAuth req1 (rt_tenantID r) (rt_basicAuthPassword r)
                  else req1)
      in next req2)"

subsection \<open>The gateway, its documents and its effects\<close>

record Alertmanager =
  orgID :: int
  tenantID :: string
  url :: string
  configEndpoint :: string
  httpClient :: roundTripper
  ready :: bool

record AlertmanagerConfig =
  URL :: string
  TenantID :: string
  BasicAuthPassword :: string
  ConfigEndpoint :: string

text \<open>
  \<^verbatim>\<open>apimodels.PostableUserConfig\<close>: the template files (a Go map, \<open>None\<close> when nil) and
  the structured configuration, whose type \<open>'c\<close> is declared outside the file.
\<close>

record 'c PostableUserConfig =
  TemplateFiles :: "(string, string) fmap option"
  AlertmanagerConfig :: 'c

text \<open>\<^verbatim>\<open>ngmodels.SaveAlertmanagerConfigurationCmd\<close>, the fields that \<^verbatim>\<open>saveConfig\<close> sets.\<close>

record SaveAlertmanagerConfigurationCmd =
  AlertmanagerConfiguration :: string
  ConfigurationVersion :: string
  OrgID :: int
  LastApplied :: int

text \<open>The effects of a call, in the order the code performs them; \<open>'a\<close> is the alert type.\<close>

datatype 'a event =
    HttpDo Request
  | LogDebug string
  | LogWarn string
  | LogError string string
  | SetReady
  | StoreSave SaveAlertmanagerConfigurationCmd
  | SenderRun
  | SenderApplyConfig int string
  | SenderSendAlerts "'a list"
  | SenderStop

text \<open>
  The collaborators of the gateway. \<open>url_Parse\<close> gives the error of \<^verbatim>\<open>url.Parse\<close>, if
  any; \<open>transport\<close> is \<^verbatim>\<open>http.DefaultTransport\<close>; \<open>sender_Alertmanagers t\<close> is the number
  of Alertmanagers the sender reports \<open>t\<close> milliseconds after the wait for it began; the
  three codec functions are \<^verbatim>\<open>json.Marshal\<close> and \<^verbatim>\<open>json.Unmarshal\<close> at the structured
  configuration and at the whole document; \<open>time_Now\<close> is the Unix time of the clock;
  \<open>AlertConfigurationVersion\<close> is the constant of that name in \<^verbatim>\<open>ngmodels\<close>.
\<close>

record 'c world =
  url_Parse :: "string \<Rightarrow> error option"
  transport :: "Request \<Rightarrow> error + Response"
  sender_ApplyConfig :: "int \<Rightarrow> string \<Rightarrow> error option"
  sender_Alertmanagers :: "nat \<Rightarrow> nat"
  json_Marshal_config :: "'c \<Rightarrow> error + string"
  json_Unmarshal_config :: "string \<Rightarrow> error + 'c"
  json_Marshal_document :: "'c PostableUserConfig \<Rightarrow> error + string"
  store_Save :: "SaveAlertmanagerConfigurationCmd \<Rightarrow> error option"
  time_Now :: int
  AlertConfigurationVersion :: int

definition readyEndpoint :: string where
  "readyEndpoint = ''/-/ready''"

definition defaultConfigEndpoint :: string where
  "defaultConfigEndpoint = ''/api/v1/alerts''"

text \<open>\<^verbatim>\<open>senderStartTimeout\<close> (10 seconds) and the ticker's period, in milliseconds.\<close>

definition senderStartTimeout :: nat where
  "senderStartTimeout = 10000"

definition tickerPeriod :: nat where
  "tickerPeriod = 100"

text \<open>
  \<^verbatim>\<open>http.NewRequestWithContext\<close> with a fixed valid method: it fails when the URL does
  not parse. \<^verbatim>\<open>am.httpClient.Do\<close> sends the request through the decorator.
\<close>

definition NewRequestWithContext ::
  "'c world \<Rightarrow> string \<Rightarrow> string \<Rightarrow> json option \<Rightarrow> error + Request" where
  "NewRequestWithContext w method u body =
     (case url_Parse w u of
        Some err \<Rightarrow> Inl err
      | None \<Rightarrow> Inr \<lparr>Method = method, ReqURL = u, Header = Map.empty, Body = body\<rparr>)"

definition httpClient_Do :: "'c world \<Rightarrow> Alertmanager \<Rightarrow> Request \<Rightarrow> error + Response" where
  "httpClient_Do w am req = RoundTrip (httpClient am) (transport w) req"

definition closeBody :: "Response \<Rightarrow> string \<Rightarrow> 'a event list" where
  "closeBody res msg = (case Close res of Some err \<Rightarrow> [LogWarn msg] | None \<Rightarrow> [])"

subsection \<open>Construction\<close>

definition NewAlertmanager ::
  "'c world \<Rightarrow> AlertmanagerConfig \<Rightarrow> int \<Rightarrow> (error + Alertmanager) \<times> 'a event list" where
  "NewAlertmanager w cfg0 org =
     (let client = \<lparr>rt_tenantID = TenantID cfg0, rt_basicAuthPassword = BasicAuthPassword cfg0\<rparr>;
          cfg = (if ConfigEndpoint cfg0 = '''' then cfg0\<lparr>ConfigEndpoint := defaultConfigEndpoint\<rparr>
                 else cfg0)
      in if URL cfg = '''' then (Inl (EmptyURL (TenantID cfg)), [])
         else case url_Parse w (URL cfg) of
           Some err \<Rightarrow> (Inl err, [])
         | None \<Rightarrow>
             (case sender_ApplyConfig w org (URL cfg) of
                Some err \<Rightarrow> (Inl err, [SenderRun, SenderApplyConfig org (URL cfg)])
              | None \<Rightarrow>
                  (Inr \<lparr>orgID = org, tenantID = TenantID cfg, url = URL cfg,
                        configEndpoint = ConfigEndpoint cfg, httpClient = client,
                        ready = False\<rparr>,
                   [SenderRun, SenderApplyConfig org (URL cfg)])))"

subsection \<open>Readiness\<close>

text \<open>
  The wait for the sender in \<^verbatim>\<open>checkReadiness\<close>: one call of \<open>checkReadiness_loop\<close> is
  one pass through the \<^verbatim>\<open>for { select { ... } }\<close>. Time is in milliseconds since the
  ticker was created; \<open>now\<close> is the time at which the \<^verbatim>\<open>select\<close> is entered and
  \<open>nextTick\<close> the time at which the ticker's channel next delivers. Entering the
  \<^verbatim>\<open>select\<close> evaluates \<^verbatim>\<open>time.After(senderStartTimeout)\<close>, a new timer that fires
  \<open>senderStartTimeout\<close> after \<open>now\<close>; the case whose channel is ready first runs (the
  timer's, when both are ready at once). The body of the tick case takes no time.
  The first argument bounds the number of passes: \<open>None\<close> is a loop still running
  after that many.
\<close>

fun checkReadiness_loop ::
  "nat \<Rightarrow> (nat \<Rightarrow> nat) \<Rightarrow> nat \<Rightarrow> nat \<Rightarrow> nat \<Rightarrow> (error option \<times> nat \<times> nat) option" where
  "checkReadiness_loop 0 alertmanagers now nextTick attempts = None"
| "checkReadiness_loop (Suc fuel) alertmanagers now nextTick attempts =
     (let deadline = now + senderStartTimeout
      in if nextTick < deadline
         then (if 0 < alertmanagers nextTick
               then Some (None, attempts + 1, nextTick)
               else checkReadiness_loop fuel alertmanagers nextTick
                      (nextTick + tickerPeriod) (attempts + 1))
         else Some (Some ErrAlertmanagerNotReady, attempts, deadline))"

text \<open>
  \<^verbatim>\<open>checkReadiness\<close>. The result is \<open>None\<close> when the wait has not ended within \<open>fuel\<close>
  passes; otherwise the error (if any), the gateway and the effects.
\<close>

definition checkReadiness ::
  "'c world \<Rightarrow> nat \<Rightarrow> Alertmanager \<Rightarrow> (error option \<times> Alertmanager \<times> 'a event list) option" where
  "checkReadiness w fuel am =
     (let readyURL = TrimSuffix (url am) ''/'' @ readyEndpoint
      in case NewRequestWithContext w ''GET'' readyURL None of
           Inl err \<Rightarrow> Some (Some (CreatingReadinessRequest err), am, [])
         | Inr req \<Rightarrow>
             (case httpClient_Do w am req of
                Inl err \<Rightarrow> Some (Some (PerformingReadinessCheck err), am, [HttpDo req])
              | Inr res \<Rightarrow>
                  if StatusCode res \<noteq> 200
                  then Some (Some (NotReadyStatusCode (StatusCode res)), am,
                             HttpDo req # closeBody res ''Error closing response body'')
                  else
                    (case checkReadiness_loop fuel (sender_Alertmanagers w) 0 tickerPeriod 0 of
                       None \<Rightarrow> None
                     | Some (None, attempts, t) \<Rightarrow>
                         Some (None, am\<lparr>ready := True\<rparr>,
                               [HttpDo req,
                                LogDebug ''Alertmanager readiness check successful'',
                                SetReady]
                               @ closeBody res ''Error closing response body'')
                     | Some (Some err, attempts, t) \<Rightarrow>
                         Some (Some err, am,
                               HttpDo req # closeBody res ''Error closing response body''))))"

definition ApplyConfig ::
  "'c world \<Rightarrow> nat \<Rightarrow> Alertmanager \<Rightarrow> (error option \<times> Alertmanager \<times> 'a event list) option" where
  "ApplyConfig w fuel am = (if ready am then Some (None, am, []) else checkReadiness w fuel am)"

definition Ready :: "Alertmanager \<Rightarrow> bool \<times> Alertmanager \<times> 'a event list" where
  "Ready am = (ready am, am, [])"

subsection \<open>Configuration: push, pull and the local copy\<close>

text \<open>
  The envelope that \<^verbatim>\<open>postConfig\<close> sends, and \<^verbatim>\<open>json.Marshal\<close> at its type: a nil map
  is \<^verbatim>\<open>null\<close>, a map is an object of strings, the configuration is a string member.
\<close>

record envelope =
  env_TemplateFiles :: "(string, string) fmap option"
  env_AlertmanagerConfig :: string

definition json_Marshal_envelope :: "envelope \<Rightarrow> error + json" where
  "json_Marshal_envelope e =
     Inr (JObject (fmap_of_list
       [(''template_files'',
           (case env_TemplateFiles e of None \<Rightarrow> JNull | Some m \<Rightarrow> json_Marshal_map m)),
        (''grafana_alertmanager_config'', JString (json_string (env_AlertmanagerConfig e)))]))"



text \<open>
  \<^verbatim>\<open>json.Unmarshal\<close> at the types \<^verbatim>\<open>getConfig\<close> declares. A member that is absent or
  \<^verbatim>\<open>null\<close> leaves the zero value; a value of another shape than the field's is an
  error. Member names are compared exactly.
\<close>

definition json_type_error :: error where
  "json_type_error = External ''json: cannot unmarshal value into Go value''"

definition json_syntax_error :: error where
  "json_syntax_error = External ''invalid character looking for beginning of value''"

definition is_string_or_null :: "json \<Rightarrow> bool" where
  "is_string_or_null v = (case v of JString s \<Rightarrow> True | JNull \<Rightarrow> True | _ \<Rightarrow> False)"

definition string_of_json :: "json \<Rightarrow> string" where
  "string_of_json v = (case v of JString s \<Rightarrow> s | _ \<Rightarrow> '''')"

definition json_Unmarshal_map :: "json option \<Rightarrow> error + (string, string) fmap option" where
  "json_Unmarshal_map v =
     (case v of
        None \<Rightarrow> Inr None
      | Some JNull \<Rightarrow> Inr None
      | Some (JObject members) \<Rightarrow>
          if fmpred (\<lambda>k x. is_string_or_null x) members
          then Inr (Some (fmmap string_of_json members))
          else Inl json_type_error
      | Some _ \<Rightarrow> Inl json_type_error)"

definition json_Unmarshal_string :: "json option \<Rightarrow> error + string" where
  "json_Unmarshal_string v =
     (case v of
        None \<Rightarrow> Inr ''''
      | Some JNull \<Rightarrow> Inr ''''
      | Some (JString s) \<Rightarrow> Inr s
      | Some _ \<Rightarrow> Inl json_type_error)"

definition json_Unmarshal_data :: "json option \<Rightarrow> error + envelope" where
  "json_Unmarshal_data v =
     (case v of
        None \<Rightarrow> Inr \<lparr>env_TemplateFiles = None, env_AlertmanagerConfig = ''''\<rparr>
      | Some JNull \<Rightarrow> Inr \<lparr>env_TemplateFiles = None, env_AlertmanagerConfig = ''''\<rparr>
      | Some (JObject members) \<Rightarrow>
          (case json_Unmarshal_map (fmlookup members ''template_files'') of
             Inl err \<Rightarrow> Inl err
           | Inr tf \<Rightarrow>
               (case json_Unmarshal_string (fmlookup members ''grafana_alertmanager_config'') of
                  Inl err \<Rightarrow> Inl err
                | Inr s \<Rightarrow> Inr \<lparr>env_TemplateFiles = tf, env_AlertmanagerConfig = s\<rparr>))
      | Some _ \<Rightarrow> Inl json_type_error)"

definition json_Unmarshal_body :: "json option \<Rightarrow> error + envelope" where
  "json_Unmarshal_body b =
     (case b of
        None \<Rightarrow> Inl json_syntax_error
      | Some JNull \<Rightarrow> Inr \<lparr>env_TemplateFiles = None, env_AlertmanagerConfig = ''''\<rparr>
      | Some (JObject members) \<Rightarrow> json_Unmarshal_data (fmlookup members ''data'')
      | Some _ \<Rightarrow> Inl json_type_error)"

text \<open>The URL of the configuration endpoint, as both \<^verbatim>\<open>postConfig\<close> and \<^verbatim>\<open>getConfig\<close> build it.\<close>

definition configURL :: "Alertmanager \<Rightarrow> string" where
  "configURL am = TrimSuffix (url am) ''/alertmanager'' @ configEndpoint am"

text \<open>\<^verbatim>\<open>postConfig\<close>, up to the request body (the two calls of \<^verbatim>\<open>json.Marshal\<close>).\<close>

definition postConfig_body :: "'c world \<Rightarrow> 'c PostableUserConfig \<Rightarrow> error + json" where
  "postConfig_body w cfg =
     (case json_Marshal_config w (AlertmanagerConfig cfg) of
        Inl err \<Rightarrow> Inl err
      | Inr cfgBytes \<Rightarrow>
          (case json_Marshal_envelope
                  \<lparr>env_TemplateFiles = TemplateFiles cfg, env_AlertmanagerConfig = cfgBytes\<rparr> of
             Inl err \<Rightarrow> Inl (MarshalingConfiguration err)
           | Inr b \<Rightarrow> Inr b))"

definition postConfig ::
  "'c world \<Rightarrow> Alertmanager \<Rightarrow> 'c PostableUserConfig \<Rightarrow> error option \<times> Alertmanager \<times> 'a event list" where
  "postConfig w am cfg =
     (case postConfig_body w cfg of
        Inl err \<Rightarrow> (Some err, am, [])
      | Inr b \<Rightarrow>
          (case NewRequestWithContext w ''POST'' (configURL am) (Some b) of
             Inl err \<Rightarrow> (Some (CreatingRequest err), am, [])
           | Inr req \<Rightarrow>
               (let sending = [LogDebug ''Sending request to external Alertmanager'', HttpDo req]
                in case httpClient_Do w am req of
                     Inl err \<Rightarrow> (Some err, am, sending)
                   | Inr res \<Rightarrow>
                       if StatusCode res \<noteq> 201
                       then (Some (UnexpectedStatusCode (StatusCode res)), am, sending)
                       else
                         (case ReadAll res of
                            Inl err \<Rightarrow>
                              (Some (ReadingResponse err), am,
                               sending @ closeBody res ''Error while closing body'')
                          | Inr bytes \<Rightarrow>
                              if StatusCode res \<noteq> 201
                              then (Some (SettingConfigFailed (StatusCode res)), am,
                                    sending @ closeBody res ''Error while closing body'')
                              else (None, am,
                                    sending @ closeBody res ''Error while closing body'')))))"

text \<open>\<^verbatim>\<open>getConfig\<close>, from the bytes of the response body on (the two calls of \<^verbatim>\<open>json.Unmarshal\<close>).\<close>

definition getConfig_decode :: "'c world \<Rightarrow> json option \<Rightarrow> error + 'c PostableUserConfig" where
  "getConfig_decode w b =
     (case json_Unmarshal_body b of
        Inl err \<Rightarrow> Inl (UnmarshalingRemoteConfiguration err)
      | Inr data \<Rightarrow>
          (case json_Unmarshal_config w (env_AlertmanagerConfig data) of
             Inl err \<Rightarrow> Inl err
           | Inr amConfig \<Rightarrow>
               Inr \<lparr>TemplateFiles = env_TemplateFiles data, AlertmanagerConfig = amConfig\<rparr>))"

definition getConfig ::
  "'c world \<Rightarrow> Alertmanager \<Rightarrow> (error + 'c PostableUserConfig) \<times> Alertmanager \<times> 'a event list" where
  "getConfig w am =
     (case NewRequestWithContext w ''GET'' (configURL am) None of
        Inl err \<Rightarrow> (Inl (CreatingRequest err), am, [])
      | Inr req \<Rightarrow>
          (let sending = [LogDebug ''Sending request to external Alertmanager'', HttpDo req]
           in case httpClient_Do w am req of
                Inl err \<Rightarrow> (Inl err, am, sending)
              | Inr res \<Rightarrow>
                  if StatusCode res \<noteq> 200
                  then (if StatusCode res = 404
                        then (Inl ConfigNotFound, am, sending)
                        else (Inl (UnexpectedStatusCode (StatusCode res)), am, sending))
                  else
                    (case ReadAll res of
                       Inl err \<Rightarrow>
                         (Inl (ReadingResponse err), am,
                          sending @ closeBody res ''Error while closing body'')
                     | Inr b \<Rightarrow>
                         (getConfig_decode w b, am,
                          sending @ closeBody res ''Error while closing body''))))"

definition saveConfig ::
  "'c world \<Rightarrow> Alertmanager \<Rightarrow> 'c PostableUserConfig \<Rightarrow> error option \<times> Alertmanager \<times> 'a event list" where
  "saveConfig w am cfg =
     (case json_Marshal_document w cfg of
        Inl err \<Rightarrow> (Some (SerializeConfiguration err), am, [])
      | Inr b \<Rightarrow>
          (let cmd = \<lparr>AlertmanagerConfiguration = b,
                      ConfigurationVersion = ''v'' @ fmt_d (AlertConfigurationVersion w),
                      OrgID = orgID am,
                      LastApplied = time_Now w\<rparr>
           in (store_Save w cmd, am, [StoreSave cmd])))"

definition SaveAndApplyConfig ::
  "'c world \<Rightarrow> Alertmanager \<Rightarrow> 'c PostableUserConfig \<Rightarrow> error option \<times> Alertmanager \<times> 'a event list" where
  "SaveAndApplyConfig w am cfg =
     (case postConfig w am cfg of
        (Some err, am1, evs) \<Rightarrow> (Some err, am1, evs)
      | (None, am1, evs) \<Rightarrow>
          (case saveConfig w am1 cfg of (r, am2, evs2) \<Rightarrow> (r, am2, evs @ evs2)))"

definition SaveAndApplyDefaultConfig ::
  "'c world \<Rightarrow> Alertmanager \<Rightarrow> error option \<times> Alertmanager \<times> 'a event list" where
  "SaveAndApplyDefaultConfig w am =
     (case getConfig w am of
        (Inl err, am1, evs) \<Rightarrow> (Some err, am1, evs)
      | (Inr cfg, am1, evs) \<Rightarrow>
          (case saveConfig w am1 cfg of (r, am2, evs2) \<Rightarrow> (r, am2, evs @ evs2)))"

subsection \<open>Silences, alerts and alert groups\<close>

text \<open>
  Each of the six relay methods takes the call of the generated client it makes as
  \<open>binding\<close>. Its results are unnamed, so when the deferred function recovers a panic
  the method returns the zero value of each result: the empty string, a nil slice (the
  empty list), a nil error, and for \<^verbatim>\<open>GetSilence\<close> the zero struct, passed as \<open>zero\<close>
  since the struct's type is declared outside the file.
\<close>

definition CreateSilence ::
  "('s \<Rightarrow> (error + string) outcome) \<Rightarrow> Alertmanager \<Rightarrow> 's \<Rightarrow>
     (string \<times> error option) outcome \<times> Alertmanager \<times> 'a event list" where
  "CreateSilence binding am silence =
     (case binding silence of
        Panics r \<Rightarrow> (Returns ('''', None), am, [LogError ''Panic while creating silence'' r])
      | Returns (Inl err) \<Rightarrow> (Returns ('''', Some err), am, [])
      | Returns (Inr silenceID) \<Rightarrow> (Returns (silenceID, None), am, []))"

definition DeleteSilence ::
  "(string \<Rightarrow> error option outcome) \<Rightarrow> Alertmanager \<Rightarrow> string \<Rightarrow>
     error option outcome \<times> Alertmanager \<times> 'a event list" where
  "DeleteSilence binding am silenceID =
     (case binding silenceID of
        Panics r \<Rightarrow> (Returns None, am, [LogError ''Panic while deleting silence'' r])
      | Returns (Some err) \<Rightarrow> (Returns (Some err), am, [])
      | Returns None \<Rightarrow> (Returns None, am, []))"

definition GetSilence ::
  "'g \<Rightarrow> (string \<Rightarrow> (error + 'g) outcome) \<Rightarrow> Alertmanager \<Rightarrow> string \<Rightarrow>
     ('g \<times> error option) outcome \<times> Alertmanager \<times> 'a event list" where
  "GetSilence zero binding am silenceID =
     (case binding silenceID of
        Panics r \<Rightarrow> (Returns (zero, None), am, [LogError ''Panic while getting silence'' r])
      | Returns (Inl err) \<Rightarrow> (Returns (zero, Some err), am, [])
      | Returns (Inr payload) \<Rightarrow> (Returns (payload, None), am, []))"

definition ListSilences ::
  "(string list \<Rightarrow> (error + 'g list) outcome) \<Rightarrow> Alertmanager \<Rightarrow> string list \<Rightarrow>
     ('g list \<times> error option) outcome \<times> Alertmanager \<times> 'a event list" where
  "ListSilences binding am filter_arg =
     (case binding filter_arg of
        Panics r \<Rightarrow> (Returns ([], None), am, [LogError ''Panic while listing silences'' r])
      | Returns (Inl err) \<Rightarrow> (Returns ([], Some err), am, [])
      | Returns (Inr payload) \<Rightarrow> (Returns (payload, None), am, []))"

definition GetAlerts ::
  "(bool \<times> bool \<times> bool \<times> string list \<times> string \<Rightarrow> (error + 'g list) outcome) \<Rightarrow> Alertmanager \<Rightarrow>
     bool \<Rightarrow> bool \<Rightarrow> bool \<Rightarrow> string list \<Rightarrow> string \<Rightarrow>
     ('g list \<times> error option) outcome \<times> Alertmanager \<times> 'a event list" where
  "GetAlerts binding am active silenced inhibited filter_arg receiver =
     (case binding (active, silenced, inhibited, filter_arg, receiver) of
        Panics r \<Rightarrow> (Returns ([], None), am, [LogError ''Panic while getting alerts'' r])
      | Returns (Inl err) \<Rightarrow> (Returns ([], Some err), am, [])
      | Returns (Inr payload) \<Rightarrow> (Returns (payload, None), am, []))"

definition GetAlertGroups ::
  "(bool \<times> bool \<times> bool \<times> string list \<times> string \<Rightarrow> (error + 'g list) outcome) \<Rightarrow> Alertmanager \<Rightarrow>
     bool \<Rightarrow> bool \<Rightarrow> bool \<Rightarrow> string list \<Rightarrow> string \<Rightarrow>
     ('g list \<times> error option) outcome \<times> Alertmanager \<times> 'a event list" where
  "GetAlertGroups binding am active silenced inhibited filter_arg receiver =
     (case binding (active, silenced, inhibited, filter_arg, receiver) of
        Panics r \<Rightarrow> (Returns ([], None), am, [LogError ''Panic while getting alert groups'' r])
      | Returns (Inl err) \<Rightarrow> (Returns ([], Some err), am, [])
      | Returns (Inr payload) \<Rightarrow> (Returns (payload, None), am, []))"

subsection \<open>The other methods\<close>

text \<open>\<^verbatim>\<open>PutAlerts\<close>: the batch is the slice inside \<^verbatim>\<open>apimodels.PostableAlerts\<close>.\<close>

definition PutAlerts ::
  "Alertmanager \<Rightarrow> 'a list \<Rightarrow> error option \<times> Alertmanager \<times> 'a event list" where
  "PutAlerts am alerts =
     (None, am, [LogDebug ''Sending alerts to a remote alertmanager'', SenderSendAlerts alerts])"

text \<open>\<^verbatim>\<open>GetReceivers\<close> has no deferred recovery: a panic of the client leaves the method.\<close>

definition GetReceivers ::
  "(unit \<Rightarrow> (error + 'g list) outcome) \<Rightarrow> Alertmanager \<Rightarrow>
     ('g list \<times> error option) outcome \<times> Alertmanager \<times> 'a event list" where
  "GetReceivers binding am =
     (case binding () of
        Panics r \<Rightarrow> (Panics r, am, [])
      | Returns (Inl err) \<Rightarrow> (Returns ([], Some err), am, [])
      | Returns (Inr payload) \<Rightarrow> (Returns (payload, None), am, []))"

text \<open>
  \<^verbatim>\<open>GetStatus\<close>, \<^verbatim>\<open>TestReceivers\<close> and \<^verbatim>\<open>TestTemplate\<close> return an empty value of
  their result type, here the unit value.
\<close>

definition GetStatus :: "Alertmanager \<Rightarrow> unit \<times> Alertmanager \<times> 'a event list" where
  "GetStatus am = ((), am, [])"

definition TestReceivers :: "Alertmanager \<Rightarrow> (unit \<times> error option) \<times> Alertmanager \<times> 'a event list" where
  "TestReceivers am = (((), None), am, [])"

definition TestTemplate :: "Alertmanager \<Rightarrow> (unit \<times> error option) \<times> Alertmanager \<times> 'a event list" where
  "TestTemplate am = (((), None), am, [])"

definition StopAndWait :: "Alertmanager \<Rightarrow> unit \<times> Alertmanager \<times> 'a event list" where
  "StopAndWait am = ((), am, [SenderStop])"

definition CleanUp :: "Alertmanager \<Rightarrow> unit \<times> Alertmanager \<times> 'a event list" where
  "CleanUp am = ((), am, [])"

subsection \<open>Sequences of calls\<close>

text \<open>
  A call of a public method with its arguments and the collaborators it meets. \<open>invoke\<close>
  gives the gateway and the effects after the call, and \<open>None\<close> when the call does not
  return to its caller (the wait for the sender has not ended, or a panic left the
  method). \<open>invoke_all\<close> makes the calls one after the other on the same gateway.
\<close>

datatype ('c, 'a, 's, 'g) call =
    CallApplyConfig "'c world" nat
  | CallSaveAndApplyConfig "'c world" "'c PostableUserConfig"
  | CallSaveAndApplyDefaultConfig "'c world"
  | CallCreateSilence "'s \<Rightarrow> (error + string) outcome" 's
  | CallDeleteSilence "string \<Rightarrow> error option outcome" string
  | CallGetSilence 'g "string \<Rightarrow> (error + 'g) outcome" string
  | CallListSilences "string list \<Rightarrow> (error + 'g list) outcome" "string list"
  | CallGetAlerts "bool \<times> bool \<times> bool \<times> string list \<times> string \<Rightarrow> (error + 'g list) outcome"
      bool bool bool "string list" string
  | CallGetAlertGroups "bool \<times> bool \<times> bool \<times> string list \<times> string \<Rightarrow> (error + 'g list) outcome"
      bool bool bool "string list" string
  | CallPutAlerts "'a list"
  | CallGetStatus
  | CallGetReceivers "unit \<Rightarrow> (error + 'g list) outcome"
  | CallTestReceivers
  | CallTestTemplate
  | CallStopAndWait
  | CallReady
  | CallCleanUp

fun returned :: "'r \<times> Alertmanager \<times> 'a event list \<Rightarrow> (Alertmanager \<times> 'a event list) option" where
  "returned (r, am, evs) = Some (am, evs)"

fun returned_outcome ::
  "'r outcome \<times> Alertmanager \<times> 'a event list \<Rightarrow> (Alertmanager \<times> 'a event list) option" where
  "returned_outcome (Returns r, am, evs) = Some (am, evs)"
| "returned_outcome (Panics v, am, evs) = None"

fun invoke :: "('c, 'a, 's, 'g) call \<Rightarrow> Alertmanager \<Rightarrow> (Alertmanager \<times> 'a event list) option" where
  "invoke (CallApplyConfig w fuel) am =
     (case ApplyConfig w fuel am of None \<Rightarrow> None | Some res \<Rightarrow> returned res)"
| "invoke (CallSaveAndApplyConfig w cfg) am = returned (SaveAndApplyConfig w am cfg)"
| "invoke (CallSaveAndApplyDefaultConfig w) am = returned (SaveAndApplyDefaultConfig w am)"
| "invoke (CallCreateSilence binding silence) am = returned_outcome (CreateSilence binding am silence)"
| "invoke (CallDeleteSilence binding silenceID) am = returned_outcome (DeleteSilence binding am silenceID)"
| "invoke (CallGetSilence zero binding silenceID) am =
     returned_outcome (GetSilence zero binding am silenceID)"
| "invoke (CallListSilences binding fs) am = returned_outcome (ListSilences binding am fs)"
| "invoke (CallGetAlerts binding a s i fs r) am = returned_outcome (GetAlerts binding am a s i fs r)"
| "invoke (CallGetAlertGroups binding a s i fs r) am =
     returned_outcome (GetAlertGroups binding am a s i fs r)"
| "invoke (CallPutAlerts alerts) am = returned (PutAlerts am alerts)"
| "invoke CallGetStatus am = returned (GetStatus am)"
| "invoke (CallGetReceivers binding) am = returned_outcome (GetReceivers binding am)"
| "invoke CallTestReceivers am = returned (TestReceivers am)"
| "invoke CallTestTemplate am = returned (TestTemplate am)"
| "invoke CallStopAndWait am = returned (StopAndWait am)"
| "invoke CallReady am = returned (Ready am)"
| "invoke CallCleanUp am = returned (CleanUp am)"

fun invoke_all ::
  "('c, 'a, 's, 'g) call list \<Rightarrow> Alertmanager \<Rightarrow> (Alertmanager \<times> 'a event list) option" where
  "invoke_all [] am = Some (am, [])"
| "invoke_all (c # cs) am =
     (case invoke c am of
        None \<Rightarrow> None
      | Some (am1, evs1) \<Rightarrow>
          (case invoke_all cs am1 of
             None \<Rightarrow> None
           | Some (am2, evs2) \<Rightarrow> Some (am2, evs1 @ evs2)))"

subsection \<open>Example collaborators\<close>

text \<open>
  \<^verbatim>\<open>url.Parse\<close> belongs to the Go library. \<open>url_Parse_control\<close> embeds the first check of
  its parser, which rejects a URL that holds an ASCII control byte; every other URL is
  taken to parse.
\<close>

definition stringContainsCTLByte :: "string \<Rightarrow> bool" where
  "stringContainsCTLByte s = list_ex (\<lambda>b. of_char b < (32::nat) \<or> of_char b = (127::nat)) s"

definition url_Parse_control :: "string \<Rightarrow> error option" where
  "url_Parse_control rawURL =
     (if stringContainsCTLByte rawURL
      then Some (External ''net/url: invalid control character in URL'') else None)"

text \<open>
  A world in which the backend answers every request with the given response, the
  sender accepts its configuration and never discovers an Alertmanager, the structured
  configuration is a string that is its own JSON text, and the store accepts every write.
\<close>

definition world_answering :: "Response \<Rightarrow> string world" where
  "world_answering res =
     \<lparr>url_Parse = url_Parse_control,
      transport = (\<lambda>req. Inr res),
      sender_ApplyConfig = (\<lambda>org u. None),
      sender_Alertmanagers = (\<lambda>t. 0),
      json_Marshal_config = (\<lambda>c. Inr c),
      json_Unmarshal_config = (\<lambda>s. Inr s),
      json_Marshal_document = (\<lambda>d. Inr (AlertmanagerConfig d)),
      store_Save = (\<lambda>cmd. None),
      time_Now = 1700000000,
      AlertConfigurationVersion = 1\<rparr>"

definition response_ok :: Response where
  "response_ok = \<lparr>StatusCode = 200, ReadAll = Inr None, Close = None\<rparr>"

definition response_created :: Response where
  "response_created = \<lparr>StatusCode = 201, ReadAll = Inr None, Close = None\<rparr>"

definition response_created_unreadable :: Response where
  "response_created_unreadable =
     \<lparr>StatusCode = 201, ReadAll = Inl (External ''unexpected EOF''), Close = None\<rparr>"

definition response_not_found :: Response where
  "response_not_found = \<lparr>StatusCode = 404, ReadAll = Inr None, Close = None\<rparr>"

text \<open>The same world, with a sender that has discovered one Alertmanager after 250 ms.\<close>

definition world_discovering :: "string world" where
  "world_discovering =
     (world_answering response_ok)\<lparr>sender_Alertmanagers := (\<lambda>t. if 250 \<le> t then 1 else 0)\<rparr>"

definition example_gateway :: Alertmanager where
  "example_gateway =
     \<lparr>orgID = 1, tenantID = ''t1'', url = ''http://am/alertmanager'',
      configEndpoint = ''/api/v1/alerts'',
      httpClient = \<lparr>rt_tenantID = ''t1'', rt_basicAuthPassword = ''p1''\<rparr>,
      ready = False\<rparr>"

definition example_document :: "string PostableUserConfig" where
  "example_document =
     \<lparr>TemplateFiles = Some (fmap_of_list [(''t1'', ''{{ .Alert }}'')]),
      AlertmanagerConfig = ''{}''\<rparr>"




definition config_with_newline :: AlertmanagerConfig where
  "config_with_newline =
     \<lparr>URL = ''http://am'' @ [CHR 0x0A], TenantID = ''t1'', BasicAuthPassword = ''p1'',
      ConfigEndpoint = ''''\<rparr>"

definition example_config :: AlertmanagerConfig where
  "example_config =
     \<lparr>URL = ''http://am/alertmanager'', TenantID = ''t1'', BasicAuthPassword = ''p1'',
      ConfigEndpoint = ''''\<rparr>"

definition panicking_binding :: "'x \<Rightarrow> 'r outcome" where
  "panicking_binding x = Panics ''invalid memory address or nil pointer dereference''"

definition bare_request :: Request where
  "bare_request =
     \<lparr>Method = ''GET'', ReqURL = ''http://am/alertmanager/-/ready'', Header = Map.empty,
      Body = None\<rparr>"

text \<open>A sequence of calls on the example gateway, the first of which finds the sender ready.\<close>

definition example_calls :: "(string, unit, unit, unit) call list" where
  "example_calls =
     [CallApplyConfig world_discovering (Suc (Suc (Suc 0))),
      CallPutAlerts [()],
      CallApplyConfig (world_answering response_not_found) 0,
      CallGetSilence () panicking_binding ''s1'']"

section \<open>Readiness: the wait for the sender\<close>

text \<open>
  On entering the \<^verbatim>\<open>select\<close> the next tick is at most one period away, and the timer
  created there fires ten seconds later: the tick case runs on every pass. With a
  sender that reports no Alertmanager the loop is still running after any number of
  passes, and whatever the sender reports the loop never returns the error of the
  timer's case.
\<close>

lemma checkReadiness_loop_still_waiting:
  "nextTick \<le> now + tickerPeriod \<Longrightarrow>
   checkReadiness_loop fuel (\<lambda>t. 0) now nextTick attempts = None"
proof (induction fuel arbitrary: now nextTick attempts)
  case 0
  show ?case by simp
next
  case (Suc fuel)
  have "nextTick < now + senderStartTimeout"
    using Suc.prems by (simp add: tickerPeriod_def senderStartTimeout_def)
  moreover have "checkReadiness_loop fuel (\<lambda>t. 0) nextTick (nextTick + tickerPeriod) (attempts + 1) = None"
    using Suc.IH by simp
  ultimately show ?case
    by (simp add: Let_def)
qed

lemma checkReadiness_loop_deadline_unreachable:
  "nextTick \<le> now + tickerPeriod \<Longrightarrow>
   checkReadiness_loop fuel alertmanagers now nextTick attempts \<noteq> Some (Some err, n, t)"
proof (induction fuel arbitrary: now nextTick attempts)
  case 0
  show ?case by simp
next
  case (Suc fuel)
  have "nextTick < now + senderStartTimeout"
    using Suc.prems by (simp add: tickerPeriod_def senderStartTimeout_def)
  moreover have "checkReadiness_loop fuel alertmanagers nextTick (nextTick + tickerPeriod) (attempts + 1)
       \<noteq> Some (Some err, n, t)"
    using Suc.IH by simp
  ultimately show ?case
    by (simp add: Let_def)
qed

text \<open>
  C1. The claim: when the probe returns 200 and the sender never reports an
  Alertmanager, \<^verbatim>\<open>checkReadiness\<close> ends within the 10 seconds of \<^verbatim>\<open>senderStartTimeout\<close>
  with \<^verbatim>\<open>ErrAlertmanagerNotReady\<close>. The code does not: the timer of the second case is
  created anew on every pass of the loop, 100 ms after the previous one, so it never
  fires. The theorem: in that situation \<^verbatim>\<open>checkReadiness\<close>, and \<^verbatim>\<open>ApplyConfig\<close> on a
  gateway that is not ready, have not returned after any number of passes; and the loop
  never returns an error.
\<close>

theorem checkReadiness_never_times_out:
  assumes "NewRequestWithContext w ''GET'' (TrimSuffix (url am) ''/'' @ readyEndpoint) None = Inr req"
    and "httpClient_Do w am req = Inr res"
    and "StatusCode res = 200"
    and "\<forall>t. sender_Alertmanagers w t = 0"
  shows "(checkReadiness w fuel am :: (error option \<times> Alertmanager \<times> 'a event list) option) = None \<and>
         (\<not> ready am \<longrightarrow>
            (ApplyConfig w fuel am :: (error option \<times> Alertmanager \<times> 'a event list) option) = None) \<and>
         (\<forall>err n t. checkReadiness_loop fuel (sender_Alertmanagers w) 0 tickerPeriod 0
                        \<noteq> Some (Some err, n, t))"
proof -
  have "sender_Alertmanagers w = (\<lambda>t. 0)"
    using assms(4) by (simp add: fun_eq_iff)
  then have waiting: "checkReadiness_loop fuel (sender_Alertmanagers w) 0 tickerPeriod 0 = None"
    using checkReadiness_loop_still_waiting [of tickerPeriod 0 fuel 0] by simp
  then have "(checkReadiness w fuel am :: (error option \<times> Alertmanager \<times> 'a event list) option) = None"
    using assms(1-3) by (simp add: checkReadiness_def Let_def)
  then show ?thesis
    using waiting by (simp add: ApplyConfig_def)
qed

theorem checkReadiness_never_times_out_witness:
  "(checkReadiness (world_answering response_ok) 1000000 example_gateway
      :: (error option \<times> Alertmanager \<times> unit event list) option) = None \<and>
   (ApplyConfig (world_answering response_ok) 1000000 example_gateway
      :: (error option \<times> Alertmanager \<times> unit event list) option) = None"
proof -
  let ?w = "world_answering response_ok :: string world"
  have 1: "NewRequestWithContext ?w ''GET'' (TrimSuffix (url example_gateway) ''/'' @ readyEndpoint) None
             = Inr bare_request"
    by (simp add: NewRequestWithContext_def world_answering_def url_Parse_control_def
          stringContainsCTLByte_def TrimSuffix_def example_gateway_def readyEndpoint_def
          bare_request_def)
  have 2: "httpClient_Do ?w example_gateway bare_request = Inr response_ok"
    by (simp add: httpClient_Do_def RoundTrip_def world_answering_def Let_def)
  have 3: "StatusCode response_ok = 200"
    by (simp add: response_ok_def)
  have 4: "\<forall>t. sender_Alertmanagers ?w t = 0"
    by (simp add: world_answering_def)
  have 5: "\<not> ready example_gateway"
    by (simp add: example_gateway_def)
  show ?thesis
    using checkReadiness_never_times_out [OF 1 2 3 4, of 1000000, where ?'a = unit] 5 by blast
qed

section \<open>Construction\<close>

text \<open>
  A URL that is not empty need not parse: with a trailing newline \<^verbatim>\<open>url.Parse\<close> rejects
  it, and \<^verbatim>\<open>NewAlertmanager\<close> returns that error.
\<close>

theorem NewAlertmanager_nonempty_URL_counterexample:
  "URL config_with_newline \<noteq> '''' \<and>
   (NewAlertmanager (world_answering response_ok) config_with_newline 1
      :: (error + Alertmanager) \<times> unit event list)
   = (Inl (External ''net/url: invalid control character in URL''), [])"
  by (simp add: NewAlertmanager_def world_answering_def config_with_newline_def
        url_Parse_control_def stringContainsCTLByte_def Let_def)

text \<open>
  C3, as amended. With an empty URL \<^verbatim>\<open>NewAlertmanager\<close> fails with the empty-URL error
  before any effect (no request, and the sender is not started). With a URL that is
  not empty it succeeds exactly when the URL parses and the sender accepts its
  configuration. A gateway it returns is not ready, and holds the URL, the tenant, the
  organisation and, in its HTTP client, the tenant and the password it was given.
\<close>

theorem NewAlertmanager_result:
  "(URL cfg = '''' \<longrightarrow>
      (NewAlertmanager w cfg org :: (error + Alertmanager) \<times> 'a event list)
        = (Inl (EmptyURL (TenantID cfg)), [])) \<and>
   (URL cfg \<noteq> '''' \<longrightarrow>
      ((\<exists>am (evs :: 'a event list). NewAlertmanager w cfg org = (Inr am, evs))
        \<longleftrightarrow> url_Parse w (URL cfg) = None \<and> sender_ApplyConfig w org (URL cfg) = None)) \<and>
   (\<forall>am (evs :: 'a event list). NewAlertmanager w cfg org = (Inr am, evs) \<longrightarrow>
      \<not> ready am \<and> url am = URL cfg \<and> tenantID am = TenantID cfg \<and> orgID am = org \<and>
      httpClient am = \<lparr>rt_tenantID = TenantID cfg, rt_basicAuthPassword = BasicAuthPassword cfg\<rparr>)"
  by (auto simp add: NewAlertmanager_def Let_def split: option.splits)

theorem NewAlertmanager_result_witness:
  "(NewAlertmanager (world_answering response_ok) (example_config\<lparr>URL := ''''\<rparr>) 1
      :: (error + Alertmanager) \<times> unit event list) = (Inl (EmptyURL ''t1''), []) \<and>
   (\<exists>am (evs :: unit event list).
      NewAlertmanager (world_answering response_ok) example_config 1 = (Inr am, evs) \<and> \<not> ready am)"
proof -
  let ?w = "world_answering response_ok :: string world"
  have empty: "URL (example_config\<lparr>URL := ''''\<rparr>) = ''''"
    by simp
  have nonempty: "URL example_config \<noteq> ''''"
    by (simp add: example_config_def)
  have accepted: "url_Parse ?w (URL example_config) = None \<and>
      sender_ApplyConfig ?w 1 (URL example_config) = None"
    by (simp add: example_config_def world_answering_def url_Parse_control_def
          stringContainsCTLByte_def)
  have "TenantID (example_config\<lparr>URL := ''''\<rparr>) = ''t1''"
    by (simp add: example_config_def)
  then have first: "(NewAlertmanager ?w (example_config\<lparr>URL := ''''\<rparr>) 1
      :: (error + Alertmanager) \<times> unit event list) = (Inl (EmptyURL ''t1''), [])"
    using NewAlertmanager_result [of "example_config\<lparr>URL := ''''\<rparr>" ?w 1, where ?'a = unit] empty
    by simp
  obtain am and evs :: "unit event list"
    where built: "NewAlertmanager ?w example_config 1 = (Inr am, evs)"
    using NewAlertmanager_result [of example_config ?w 1, where ?'a = unit] nonempty accepted
    by blast
  then have "\<not> ready am"
    using NewAlertmanager_result [of example_config ?w 1, where ?'a = unit] by blast
  with first built show ?thesis by blast
qed

section \<open>The transport decorator\<close>

text \<open>
  C5. \<^verbatim>\<open>RoundTrip\<close> hands to the wrapped transport the request with the header
  \<^verbatim>\<open>X-Scope-OrgID\<close> set to the tenant id; when the tenant id and the password are both
  non-empty the \<^verbatim>\<open>Authorization\<close> header holds the basic-auth credentials (tenant id,
  password); otherwise (an empty tenant id, even with a password) the \<^verbatim>\<open>Authorization\<close>
  header is left as the caller had it. Nothing else of the request changes. Every
  request of the gateway's own HTTP client reaches the network through \<^verbatim>\<open>RoundTrip\<close>.
\<close>

theorem RoundTrip_headers:
  "RoundTrip r next req = next (RoundTrip r (\<lambda>q. q) req) \<and>
   Header (RoundTrip r (\<lambda>q. q) req) ''X-Scope-OrgID'' = Some (Plain (rt_tenantID r)) \<and>
   (rt_tenantID r \<noteq> '''' \<and> rt_basicAuthPassword r \<noteq> '''' \<longrightarrow>
      Header (RoundTrip r (\<lambda>q. q) req) ''Authorization''
        = Some (BasicAuth (rt_tenantID r) (rt_basicAuthPassword r))) \<and>
   (rt_tenantID r = '''' \<or> rt_basicAuthPassword r = '''' \<longrightarrow>
      Header (RoundTrip r (\<lambda>q. q) req) ''Authorization'' = Header req ''Authorization'') \<and>
   (\<forall>k. k \<noteq> ''X-Scope-OrgID'' \<and> k \<noteq> ''Authorization'' \<longrightarrow>
      Header (RoundTrip r (\<lambda>q. q) req) k = Header req k) \<and>
   Method (RoundTrip r (\<lambda>q. q) req) = Method req \<and>
   ReqURL (RoundTrip r (\<lambda>q. q) req) = ReqURL req \<and>
   Body (RoundTrip r (\<lambda>q. q) req) = Body req \<and>
   httpClient_Do w am req = transport w (RoundTrip (httpClient am) (\<lambda>q. q) req)"
  by (simp add: RoundTrip_def Header_Set_def SetBasicAuth_def Let_def httpClient_Do_def)

theorem RoundTrip_headers_witness:
  "Header (RoundTrip \<lparr>rt_tenantID = ''t1'', rt_basicAuthPassword = ''p1''\<rparr> (\<lambda>q. q) bare_request)
      ''X-Scope-OrgID'' = Some (Plain ''t1'') \<and>
   Header (RoundTrip \<lparr>rt_tenantID = ''t1'', rt_basicAuthPassword = ''p1''\<rparr> (\<lambda>q. q) bare_request)
      ''Authorization'' = Some (BasicAuth ''t1'' ''p1'') \<and>
   Header (RoundTrip \<lparr>rt_tenantID = '''', rt_basicAuthPassword = ''p1''\<rparr> (\<lambda>q. q) bare_request)
      ''Authorization'' = None"
  using RoundTrip_headers [of "\<lparr>rt_tenantID = ''t1'', rt_basicAuthPassword = ''p1''\<rparr>" "\<lambda>q. q" bare_request
          "world_answering response_ok" example_gateway]
        RoundTrip_headers [of "\<lparr>rt_tenantID = '''', rt_basicAuthPassword = ''p1''\<rparr>" "\<lambda>q. q" bare_request
          "world_answering response_ok" example_gateway]
  by (simp add: bare_request_def)

section \<open>Configuration: pull and push\<close>

lemma world_answering_request:
  "NewRequestWithContext (world_answering res) method (configURL example_gateway) body
     = Inr \<lparr>Method = method, ReqURL = ''http://am/api/v1/alerts'', Header = Map.empty, Body = body\<rparr>"
  by (simp add: NewRequestWithContext_def world_answering_def url_Parse_control_def
        stringContainsCTLByte_def configURL_def TrimSuffix_def example_gateway_def)

lemma world_answering_Do:
  "httpClient_Do (world_answering res) am req = Inr res"
  by (simp add: httpClient_Do_def RoundTrip_def world_answering_def Let_def)

lemma world_answering_postConfig_body:
  "\<exists>b. postConfig_body (world_answering res) cfg = Inr b"
  by (simp add: postConfig_body_def world_answering_def json_Marshal_envelope_def)

lemma closeBody_events: "e \<in> set (closeBody res msg) \<Longrightarrow> \<exists>m. e = LogWarn m"
  by (simp add: closeBody_def split: option.splits)

text \<open>
  C7. \<^verbatim>\<open>getConfig\<close> returns a document only when the response has status 200; a
  response with status 404 gives the error \<^verbatim>\<open>config not found\<close>, and a response with any
  other status than 200 and 404 gives the error \<^verbatim>\<open>unexpected status code\<close> with that
  status, which is another error than \<^verbatim>\<open>config not found\<close>.
\<close>

theorem getConfig_status:
  "(\<forall>cfg. fst (getConfig w am :: (error + 'c PostableUserConfig) \<times> Alertmanager \<times> 'a event list) = Inr cfg \<longrightarrow>
      (\<exists>req res. NewRequestWithContext w ''GET'' (configURL am) None = Inr req \<and>
         httpClient_Do w am req = Inr res \<and> StatusCode res = 200)) \<and>
   (\<forall>req res. NewRequestWithContext w ''GET'' (configURL am) None = Inr req \<and>
        httpClient_Do w am req = Inr res \<longrightarrow>
      (StatusCode res = 404 \<longrightarrow>
         fst (getConfig w am :: (error + 'c PostableUserConfig) \<times> Alertmanager \<times> 'a event list)
           = Inl ConfigNotFound) \<and>
      (StatusCode res \<noteq> 200 \<and> StatusCode res \<noteq> 404 \<longrightarrow>
         fst (getConfig w am :: (error + 'c PostableUserConfig) \<times> Alertmanager \<times> 'a event list)
           = Inl (UnexpectedStatusCode (StatusCode res)))) \<and>
   (\<forall>status. ConfigNotFound \<noteq> UnexpectedStatusCode status)"
  by (auto simp add: getConfig_def Let_def split: sum.splits if_splits)

theorem getConfig_status_witness:
  "fst (getConfig (world_answering response_not_found) example_gateway
          :: (error + string PostableUserConfig) \<times> Alertmanager \<times> unit event list)
     = Inl ConfigNotFound \<and>
   fst (getConfig (world_answering (response_not_found\<lparr>StatusCode := 503\<rparr>)) example_gateway
          :: (error + string PostableUserConfig) \<times> Alertmanager \<times> unit event list)
     = Inl (UnexpectedStatusCode 503)"
  using getConfig_status [of "world_answering response_not_found" example_gateway,
          where ?'a = unit]
        getConfig_status [of "world_answering (response_not_found\<lparr>StatusCode := 503\<rparr>)" example_gateway,
          where ?'a = unit]
  by (simp add: world_answering_request world_answering_Do response_not_found_def)

text \<open>
  A response with status 201 whose body cannot be read: \<^verbatim>\<open>postConfig\<close> fails with the
  error of reading the response.
\<close>

theorem postConfig_created_counterexample:
  "StatusCode response_created_unreadable = 201 \<and>
   fst (postConfig (world_answering response_created_unreadable) example_gateway example_document
          :: error option \<times> Alertmanager \<times> unit event list)
     = Some (ReadingResponse (External ''unexpected EOF''))"
proof -
  obtain b where "postConfig_body (world_answering response_created_unreadable) example_document = Inr b"
    using world_answering_postConfig_body by blast
  then show ?thesis
    by (simp add: postConfig_def world_answering_request world_answering_Do
          response_created_unreadable_def Let_def)
qed

text \<open>
  C8, as amended. \<^verbatim>\<open>postConfig\<close> succeeds if and only if the body was encoded, the
  request was built and sent, the backend responded with status 201 and the body of the
  response was read without error. For a response with any other status it returns the
  error \<^verbatim>\<open>unexpected status code\<close> with that status.
\<close>

theorem postConfig_status:
  "(fst (postConfig w am cfg :: error option \<times> Alertmanager \<times> 'a event list) = None \<longleftrightarrow>
      (\<exists>b req res. postConfig_body w cfg = Inr b \<and>
         NewRequestWithContext w ''POST'' (configURL am) (Some b) = Inr req \<and>
         httpClient_Do w am req = Inr res \<and> StatusCode res = 201 \<and>
         (\<exists>bytes. ReadAll res = Inr bytes))) \<and>
   (\<forall>b req res. postConfig_body w cfg = Inr b \<and>
        NewRequestWithContext w ''POST'' (configURL am) (Some b) = Inr req \<and>
        httpClient_Do w am req = Inr res \<and> StatusCode res \<noteq> 201 \<longrightarrow>
      fst (postConfig w am cfg :: error option \<times> Alertmanager \<times> 'a event list)
        = Some (UnexpectedStatusCode (StatusCode res)))"
  by (auto simp add: postConfig_def Let_def split: sum.splits if_splits)

theorem postConfig_status_witness:
  "fst (postConfig (world_answering response_created) example_gateway example_document
          :: error option \<times> Alertmanager \<times> unit event list) = None \<and>
   fst (postConfig (world_answering response_ok) example_gateway example_document
          :: error option \<times> Alertmanager \<times> unit event list) = Some (UnexpectedStatusCode 200)"
proof -
  obtain b where b: "postConfig_body (world_answering response_created) example_document = Inr b"
    using world_answering_postConfig_body by blast
  obtain c where c: "postConfig_body (world_answering response_ok) example_document = Inr c"
    using world_answering_postConfig_body by blast
  have "StatusCode response_created = 201 \<and> (\<exists>bytes. ReadAll response_created = Inr bytes)"
    by (simp add: response_created_def)
  then have first: "fst (postConfig (world_answering response_created) example_gateway example_document
          :: error option \<times> Alertmanager \<times> unit event list) = None"
    using postConfig_status [of "world_answering response_created" example_gateway example_document,
            where ?'a = unit] b world_answering_request world_answering_Do
    by blast
  have "fst (postConfig (world_answering response_ok) example_gateway example_document
          :: error option \<times> Alertmanager \<times> unit event list)
        = Some (UnexpectedStatusCode (StatusCode response_ok))"
    using postConfig_status [of "world_answering response_ok" example_gateway example_document,
            where ?'a = unit, THEN conjunct2, rule_format,
            of c "\<lparr>Method = ''POST'', ReqURL = ''http://am/api/v1/alerts'', Header = Map.empty,
                   Body = Some c\<rparr>" response_ok]
          c world_answering_request world_answering_Do
    by (simp add: response_ok_def)
  with first show ?thesis by (simp add: response_ok_def)
qed

lemma postConfig_frame:
  "fst (snd (postConfig w am cfg :: error option \<times> Alertmanager \<times> 'a event list)) = am \<and>
   (\<forall>e \<in> set (snd (snd (postConfig w am cfg :: error option \<times> Alertmanager \<times> 'a event list))).
      e \<noteq> SetReady \<and> (\<forall>cmd. e \<noteq> StoreSave cmd))"
  by (auto simp add: postConfig_def Let_def split: sum.splits if_splits dest!: closeBody_events)

lemma postConfig_sends:
  "fst (postConfig w am cfg :: error option \<times> Alertmanager \<times> 'a event list) = None \<Longrightarrow>
   \<exists>req. HttpDo req \<in> set (snd (snd (postConfig w am cfg :: error option \<times> Alertmanager \<times> 'a event list)))
      \<and> Method req = ''POST''"
  by (auto simp add: postConfig_def NewRequestWithContext_def Let_def
        split: sum.splits if_splits option.splits)

lemma example_push_accepted:
  "fst (postConfig (world_answering response_created) example_gateway example_document
          :: error option \<times> Alertmanager \<times> unit event list) = None"
proof -
  obtain b where "postConfig_body (world_answering response_created) example_document = Inr b"
    using world_answering_postConfig_body by blast
  then show ?thesis
    by (simp add: postConfig_def world_answering_request world_answering_Do
          response_created_def Let_def)
qed

lemma example_push_refused:
  "fst (postConfig (world_answering response_ok) example_gateway example_document
          :: error option \<times> Alertmanager \<times> unit event list) = Some (UnexpectedStatusCode 200)"
proof -
  obtain b where "postConfig_body (world_answering response_ok) example_document = Inr b"
    using world_answering_postConfig_body by blast
  then show ?thesis
    by (simp add: postConfig_def world_answering_request world_answering_Do
          response_ok_def Let_def)
qed

text \<open>
  C9. \<^verbatim>\<open>SaveAndApplyConfig\<close> pushes first. When the push fails it returns the error
  of the push and does what the push did, which never writes to the store. A write to
  the store happens only after a successful push, whose POST request precedes it; it is
  the last effect, and its command holds the serialised document, the version tag
  \<^verbatim>\<open>v\<close> followed by \<^verbatim>\<open>AlertConfigurationVersion\<close>, the organisation and the current
  time as the time last applied. After a successful push of a document that serialises,
  the write does happen.
\<close>

theorem SaveAndApplyConfig_push_then_save:
  "(let pushed = (postConfig w am cfg :: error option \<times> Alertmanager \<times> 'a event list);
        applied = (SaveAndApplyConfig w am cfg :: error option \<times> Alertmanager \<times> 'a event list)
    in (\<forall>err. fst pushed = Some err \<longrightarrow> applied = pushed) \<and>
       (\<forall>cmd. StoreSave cmd \<notin> set (snd (snd pushed))) \<and>
       (\<forall>cmd. StoreSave cmd \<in> set (snd (snd applied)) \<longrightarrow>
          fst pushed = None \<and>
          (\<exists>req. HttpDo req \<in> set (snd (snd pushed)) \<and> Method req = ''POST'') \<and>
          snd (snd applied) = snd (snd pushed) @ [StoreSave cmd] \<and>
          json_Marshal_document w cfg = Inr (AlertmanagerConfiguration cmd) \<and>
          ConfigurationVersion cmd = ''v'' @ fmt_d (AlertConfigurationVersion w) \<and>
          OrgID cmd = orgID am \<and>
          LastApplied cmd = time_Now w \<and>
          fst applied = store_Save w cmd) \<and>
       (\<forall>b. fst pushed = None \<and> json_Marshal_document w cfg = Inr b \<longrightarrow>
          (\<exists>cmd. StoreSave cmd \<in> set (snd (snd applied)))))"
proof -
  let ?pushed = "postConfig w am cfg :: error option \<times> Alertmanager \<times> 'a event list"
  let ?applied = "SaveAndApplyConfig w am cfg :: error option \<times> Alertmanager \<times> 'a event list"
  have "fst (snd ?pushed) = am"
    using postConfig_frame [of w am cfg, where ?'a = 'a] by blast
  then obtain r evs where pushed: "?pushed = (r, am, evs)"
    by (metis prod.collapse)
  have none: "\<forall>cmd. StoreSave cmd \<notin> set evs"
    using postConfig_frame [of w am cfg, where ?'a = 'a] pushed by auto
  have failing: "\<forall>err. fst ?pushed = Some err \<longrightarrow> ?applied = ?pushed"
    using pushed by (simp add: SaveAndApplyConfig_def)
  have sends: "fst ?pushed = None \<longrightarrow> (\<exists>req. HttpDo req \<in> set (snd (snd ?pushed)) \<and> Method req = ''POST'')"
    using postConfig_sends [of w am cfg, where ?'a = 'a] by blast
  have saved: "\<forall>cmd. StoreSave cmd \<in> set (snd (snd ?applied)) \<longrightarrow>
          fst ?pushed = None \<and>
          snd (snd ?applied) = snd (snd ?pushed) @ [StoreSave cmd] \<and>
          json_Marshal_document w cfg = Inr (AlertmanagerConfiguration cmd) \<and>
          ConfigurationVersion cmd = ''v'' @ fmt_d (AlertConfigurationVersion w) \<and>
          OrgID cmd = orgID am \<and>
          LastApplied cmd = time_Now w \<and>
          fst ?applied = store_Save w cmd"
    using pushed none
    by (cases r; cases "json_Marshal_document w cfg")
       (auto simp add: SaveAndApplyConfig_def saveConfig_def Let_def)
  have written: "\<forall>b. fst ?pushed = None \<and> json_Marshal_document w cfg = Inr b \<longrightarrow>
          (\<exists>cmd. StoreSave cmd \<in> set (snd (snd ?applied)))"
    using pushed by (auto simp add: SaveAndApplyConfig_def saveConfig_def Let_def)
  show ?thesis
    unfolding Let_def using failing none pushed sends saved written by simp
qed

theorem SaveAndApplyConfig_push_then_save_witness:
  "(\<exists>cmd. StoreSave cmd \<in> set (snd (snd (SaveAndApplyConfig (world_answering response_created)
               example_gateway example_document :: error option \<times> Alertmanager \<times> unit event list))) \<and>
      ConfigurationVersion cmd = ''v1'' \<and> LastApplied cmd = 1700000000 \<and> OrgID cmd = 1) \<and>
   fst (SaveAndApplyConfig (world_answering response_ok) example_gateway example_document
          :: error option \<times> Alertmanager \<times> unit event list) = Some (UnexpectedStatusCode 200) \<and>
   (\<forall>cmd. StoreSave cmd \<notin> set (snd (snd (SaveAndApplyConfig (world_answering response_ok)
               example_gateway example_document :: error option \<times> Alertmanager \<times> unit event list))))"
proof -
  let ?w = "world_answering response_created :: string world"
  let ?v = "world_answering response_ok :: string world"
  note accepted = SaveAndApplyConfig_push_then_save [of ?w example_gateway example_document,
      where ?'a = unit, unfolded Let_def]
  note refused = SaveAndApplyConfig_push_then_save [of ?v example_gateway example_document,
      where ?'a = unit, unfolded Let_def]
  have "json_Marshal_document ?w example_document = Inr ''{}''"
    by (simp add: world_answering_def example_document_def)
  then obtain cmd where cmd: "StoreSave cmd \<in> set (snd (snd (SaveAndApplyConfig ?w
               example_gateway example_document :: error option \<times> Alertmanager \<times> unit event list)))"
    using accepted example_push_accepted by blast
  then have "ConfigurationVersion cmd = ''v'' @ fmt_d (AlertConfigurationVersion ?w) \<and>
      LastApplied cmd = time_Now ?w \<and> OrgID cmd = orgID example_gateway"
    using accepted by blast
  then have stamped: "ConfigurationVersion cmd = ''v1'' \<and> LastApplied cmd = 1700000000 \<and> OrgID cmd = 1"
    by (simp add: world_answering_def fmt_d_def example_gateway_def)
  have same: "(SaveAndApplyConfig ?v example_gateway example_document
                :: error option \<times> Alertmanager \<times> unit event list)
              = postConfig ?v example_gateway example_document"
    using refused example_push_refused by blast
  then have "\<forall>cmd. StoreSave cmd \<notin> set (snd (snd (SaveAndApplyConfig ?v
               example_gateway example_document :: error option \<times> Alertmanager \<times> unit event list)))"
    using refused by simp
  with cmd stamped same example_push_refused show ?thesis
    by auto
qed

section \<open>Alerts\<close>

text \<open>
  C10. \<^verbatim>\<open>PutAlerts\<close> returns a nil error for every batch and every gateway: it logs,
  hands the batch to the sender's \<^verbatim>\<open>SendAlerts\<close>, leaves the gateway as it was, and
  always returns to its caller.
\<close>

theorem PutAlerts_returns_nil:
  "fst (PutAlerts am alerts) = None \<and>
   fst (snd (PutAlerts am alerts)) = am \<and>
   snd (snd (PutAlerts am alerts))
     = [LogDebug ''Sending alerts to a remote alertmanager'', SenderSendAlerts alerts] \<and>
   invoke (CallPutAlerts alerts) am \<noteq> None"
  by (simp add: PutAlerts_def)

section \<open>Silences, alerts and alert groups: recovered panics\<close>

lemma CreateSilence_recovers:
  "(b silence = Panics r \<longrightarrow>
      CreateSilence b am silence
        = (Returns ('''', None), am, [LogError ''Panic while creating silence'' r :: 'a event])) \<and>
   (\<forall>v. fst (CreateSilence b am silence :: _ \<times> _ \<times> 'a event list) \<noteq> Panics v)"
  by (simp add: CreateSilence_def split: outcome.splits sum.splits)

lemma DeleteSilence_recovers:
  "(b silenceID = Panics r \<longrightarrow>
      DeleteSilence b am silenceID
        = (Returns None, am, [LogError ''Panic while deleting silence'' r :: 'a event])) \<and>
   (\<forall>v. fst (DeleteSilence b am silenceID :: _ \<times> _ \<times> 'a event list) \<noteq> Panics v)"
  by (simp add: DeleteSilence_def split: outcome.splits option.splits)

lemma GetSilence_recovers:
  "(b silenceID = Panics r \<longrightarrow>
      GetSilence zero b am silenceID
        = (Returns (zero, None), am, [LogError ''Panic while getting silence'' r :: 'a event])) \<and>
   (\<forall>v. fst (GetSilence zero b am silenceID :: _ \<times> _ \<times> 'a event list) \<noteq> Panics v)"
  by (simp add: GetSilence_def split: outcome.splits sum.splits)

lemma ListSilences_recovers:
  "(b fs = Panics r \<longrightarrow>
      ListSilences b am fs
        = (Returns ([], None), am, [LogError ''Panic while listing silences'' r :: 'a event])) \<and>
   (\<forall>v. fst (ListSilences b am fs :: _ \<times> _ \<times> 'a event list) \<noteq> Panics v)"
  by (simp add: ListSilences_def split: outcome.splits sum.splits)

lemma GetAlerts_recovers:
  "(b (active, silenced, inhibited, fs, receiver) = Panics r \<longrightarrow>
      GetAlerts b am active silenced inhibited fs receiver
        = (Returns ([], None), am, [LogError ''Panic while getting alerts'' r :: 'a event])) \<and>
   (\<forall>v. fst (GetAlerts b am active silenced inhibited fs receiver :: _ \<times> _ \<times> 'a event list)
          \<noteq> Panics v)"
  by (simp add: GetAlerts_def split: outcome.splits sum.splits)

lemma GetAlertGroups_recovers:
  "(b (active, silenced, inhibited, fs, receiver) = Panics r \<longrightarrow>
      GetAlertGroups b am active silenced inhibited fs receiver
        = (Returns ([], None), am, [LogError ''Panic while getting alert groups'' r :: 'a event])) \<and>
   (\<forall>v. fst (GetAlertGroups b am active silenced inhibited fs receiver :: _ \<times> _ \<times> 'a event list)
          \<noteq> Panics v)"
  by (simp add: GetAlertGroups_def split: outcome.splits sum.splits)

text \<open>
  A client that panics inside \<^verbatim>\<open>CreateSilence\<close>: the panic is recovered and logged,
  and the method returns the empty identifier with a nil error.
\<close>

theorem CreateSilence_panic_counterexample:
  "(panicking_binding () :: (error + string) outcome)
     = Panics ''invalid memory address or nil pointer dereference'' \<and>
   (CreateSilence panicking_binding example_gateway ()
      :: (string \<times> error option) outcome \<times> Alertmanager \<times> unit event list)
   = (Returns ('''', None), example_gateway,
      [LogError ''Panic while creating silence''
         ''invalid memory address or nil pointer dereference''])"
  by (simp add: CreateSilence_def panicking_binding_def)

text \<open>
  C2, as amended. In each of the six relay methods a panic of the client is recovered
  and logged, and the method returns to its caller the zero value of its result with a
  nil error (the panic is not turned into an error). Whatever the client does, none of
  the six lets a panic leave the method.
\<close>

theorem relay_recovers_panic:
  "(b1 silence = Panics r \<longrightarrow>
      CreateSilence b1 am silence
        = (Returns ('''', None), am, [LogError ''Panic while creating silence'' r :: 'a event])) \<and>
   (b2 silenceID = Panics r \<longrightarrow>
      DeleteSilence b2 am silenceID
        = (Returns None, am, [LogError ''Panic while deleting silence'' r :: 'a event])) \<and>
   (b3 silenceID = Panics r \<longrightarrow>
      GetSilence zero b3 am silenceID
        = (Returns (zero, None), am, [LogError ''Panic while getting silence'' r :: 'a event])) \<and>
   (b4 fs = Panics r \<longrightarrow>
      ListSilences b4 am fs
        = (Returns ([], None), am, [LogError ''Panic while listing silences'' r :: 'a event])) \<and>
   (b5 (active, silenced, inhibited, fs, receiver) = Panics r \<longrightarrow>
      GetAlerts b5 am active silenced inhibited fs receiver
        = (Returns ([], None), am, [LogError ''Panic while getting alerts'' r :: 'a event])) \<and>
   (b6 (active, silenced, inhibited, fs, receiver) = Panics r \<longrightarrow>
      GetAlertGroups b6 am active silenced inhibited fs receiver
        = (Returns ([], None), am, [LogError ''Panic while getting alert groups'' r :: 'a event])) \<and>
   (\<forall>v. fst (CreateSilence b1 am silence :: _ \<times> _ \<times> 'a event list) \<noteq> Panics v) \<and>
   (\<forall>v. fst (DeleteSilence b2 am silenceID :: _ \<times> _ \<times> 'a event list) \<noteq> Panics v) \<and>
   (\<forall>v. fst (GetSilence zero b3 am silenceID :: _ \<times> _ \<times> 'a event list) \<noteq> Panics v) \<and>
   (\<forall>v. fst (ListSilences b4 am fs :: _ \<times> _ \<times> 'a event list) \<noteq> Panics v) \<and>
   (\<forall>v. fst (GetAlerts b5 am active silenced inhibited fs receiver :: _ \<times> _ \<times> 'a event list)
          \<noteq> Panics v) \<and>
   (\<forall>v. fst (GetAlertGroups b6 am active silenced inhibited fs receiver :: _ \<times> _ \<times> 'a event list)
          \<noteq> Panics v)"
  using CreateSilence_recovers [of b1 silence r am, where ?'a = 'a]
        DeleteSilence_recovers [of b2 silenceID r am, where ?'a = 'a]
        GetSilence_recovers [of b3 silenceID r zero am, where ?'a = 'a]
        ListSilences_recovers [of b4 fs r am, where ?'a = 'a]
        GetAlerts_recovers [of b5 active silenced inhibited fs receiver r am, where ?'a = 'a]
        GetAlertGroups_recovers [of b6 active silenced inhibited fs receiver r am, where ?'a = 'a]
  by blast

theorem relay_recovers_panic_witness:
  "(DeleteSilence panicking_binding example_gateway ''s1''
      :: error option outcome \<times> Alertmanager \<times> unit event list)
   = (Returns None, example_gateway,
      [LogError ''Panic while deleting silence''
         ''invalid memory address or nil pointer dereference'']) \<and>
   (GetAlerts panicking_binding example_gateway True False False [] ''r''
      :: (unit list \<times> error option) outcome \<times> Alertmanager \<times> unit event list)
   = (Returns ([], None), example_gateway,
      [LogError ''Panic while getting alerts''
         ''invalid memory address or nil pointer dereference''])"
  using relay_recovers_panic [of "panicking_binding :: unit \<Rightarrow> (error + string) outcome" "()"
          "''invalid memory address or nil pointer dereference''" example_gateway
          panicking_binding "''s1''"
          "panicking_binding :: string \<Rightarrow> (error + unit) outcome" "()"
          "panicking_binding :: string list \<Rightarrow> (error + unit list) outcome" "[]"
          "panicking_binding :: _ \<Rightarrow> (error + unit list) outcome" True False False "''r''"
          "panicking_binding :: _ \<Rightarrow> (error + unit list) outcome", where ?'a = unit]
  by (simp add: panicking_binding_def)

section \<open>Configuration: the round trip through the envelope\<close>











section \<open>Readiness: the flag\<close>

lemma getConfig_frame:
  "fst (snd (getConfig w am :: (error + 'c PostableUserConfig) \<times> Alertmanager \<times> 'a event list)) = am \<and>
   SetReady \<notin> set (snd (snd (getConfig w am
       :: (error + 'c PostableUserConfig) \<times> Alertmanager \<times> 'a event list)))"
  by (auto simp add: getConfig_def Let_def split: sum.splits if_splits dest!: closeBody_events)

lemma saveConfig_frame:
  "fst (snd (saveConfig w am cfg :: error option \<times> Alertmanager \<times> 'a event list)) = am \<and>
   SetReady \<notin> set (snd (snd (saveConfig w am cfg :: error option \<times> Alertmanager \<times> 'a event list)))"
  by (auto simp add: saveConfig_def Let_def split: sum.splits)

lemma SaveAndApplyConfig_frame:
  "fst (snd (SaveAndApplyConfig w am cfg :: error option \<times> Alertmanager \<times> 'a event list)) = am \<and>
   SetReady \<notin> set (snd (snd (SaveAndApplyConfig w am cfg
       :: error option \<times> Alertmanager \<times> 'a event list)))"
proof -
  obtain r a evs where p: "(postConfig w am cfg :: error option \<times> Alertmanager \<times> 'a event list) = (r, a, evs)"
    by (metis prod.collapse)
  obtain r2 a2 evs2 where s: "(saveConfig w a cfg :: error option \<times> Alertmanager \<times> 'a event list) = (r2, a2, evs2)"
    by (metis prod.collapse)
  have "a = am \<and> SetReady \<notin> set evs"
    using postConfig_frame [of w am cfg, where ?'a = 'a] p by auto
  moreover have "a2 = a \<and> SetReady \<notin> set evs2"
    using saveConfig_frame [of w a cfg, where ?'a = 'a] s by auto
  ultimately show ?thesis
    using p s by (cases r) (simp_all add: SaveAndApplyConfig_def)
qed

lemma SaveAndApplyDefaultConfig_frame:
  "fst (snd (SaveAndApplyDefaultConfig (w :: 'c world) am :: error option \<times> Alertmanager \<times> 'a event list)) = am \<and>
   SetReady \<notin> set (snd (snd (SaveAndApplyDefaultConfig w am
       :: error option \<times> Alertmanager \<times> 'a event list)))"
proof -
  obtain r a evs where p: "(getConfig w am :: (error + 'c PostableUserConfig) \<times> Alertmanager \<times> 'a event list) = (r, a, evs)"
    by (metis prod.collapse)
  have g: "a = am \<and> SetReady \<notin> set evs"
    using getConfig_frame [of w am, where ?'a = 'a] p by auto
  show ?thesis
  proof (cases r)
    case (Inl err)
    then show ?thesis using p g by (simp add: SaveAndApplyDefaultConfig_def)
  next
    case (Inr cfg)
    obtain r2 a2 evs2 where s: "(saveConfig w a cfg :: error option \<times> Alertmanager \<times> 'a event list) = (r2, a2, evs2)"
      by (metis prod.collapse)
    have "a2 = a \<and> SetReady \<notin> set evs2"
      using saveConfig_frame [of w a cfg, where ?'a = 'a] s by auto
    then show ?thesis using p g s Inr by (simp add: SaveAndApplyDefaultConfig_def)
  qed
qed

lemma checkReadiness_frame:
  "(checkReadiness w fuel am :: (error option \<times> Alertmanager \<times> 'a event list) option) = Some (r, am', evs) \<Longrightarrow>
   (am' = am \<and> SetReady \<notin> set evs) \<or>
   (r = None \<and> am' = am\<lparr>ready := True\<rparr> \<and> count_list evs SetReady = 1)"
  by (auto simp add: checkReadiness_def Let_def closeBody_def
        split: sum.splits if_splits option.splits)

lemma invoke_frame:
  assumes "invoke (c :: ('c, 'a, 's, 'g) call) am = Some (am', evs)"
  shows "(am' = am \<and> SetReady \<notin> set evs) \<or>
   (\<not> ready am \<and> am' = am\<lparr>ready := True\<rparr> \<and> count_list evs SetReady = 1)"
proof (cases c)
  case (CallApplyConfig w fuel)
  show ?thesis
  proof (cases "ready am")
    case True
    then show ?thesis
      using assms CallApplyConfig by (simp add: ApplyConfig_def)
  next
    case False
    then obtain r where "checkReadiness w fuel am = Some (r, am', evs)"
      using assms CallApplyConfig
      by (cases "checkReadiness w fuel am :: (error option \<times> Alertmanager \<times> 'a event list) option")
         (auto simp add: ApplyConfig_def)
    then show ?thesis
      using checkReadiness_frame False by blast
  qed
next
  case (CallSaveAndApplyConfig w cfg)
  then show ?thesis
    using assms SaveAndApplyConfig_frame [of w am cfg, where ?'a = 'a]
    by (cases "SaveAndApplyConfig w am cfg :: error option \<times> Alertmanager \<times> 'a event list") auto
next
  case (CallSaveAndApplyDefaultConfig w)
  then show ?thesis
    using assms SaveAndApplyDefaultConfig_frame [of w am, where ?'a = 'a]
    by (cases "SaveAndApplyDefaultConfig w am :: error option \<times> Alertmanager \<times> 'a event list") auto
qed (use assms in \<open>auto simp add: CreateSilence_def DeleteSilence_def GetSilence_def ListSilences_def
        GetAlerts_def GetAlertGroups_def PutAlerts_def GetStatus_def GetReceivers_def
        TestReceivers_def TestTemplate_def StopAndWait_def Ready_def CleanUp_def
      split: outcome.splits sum.splits option.splits\<close>)

lemma invoke_all_frame:
  "invoke_all cs am = Some (am', evs) \<Longrightarrow>
   (am' = am \<and> SetReady \<notin> set evs) \<or>
   (\<not> ready am \<and> am' = am\<lparr>ready := True\<rparr> \<and> count_list evs SetReady = 1)"
proof (induction cs arbitrary: am am' evs)
  case Nil
  then show ?case by simp
next
  case (Cons c cs)
  from Cons.prems obtain am1 evs1 am2 evs2
    where first: "invoke c am = Some (am1, evs1)"
      and rest: "invoke_all cs am1 = Some (am2, evs2)"
      and result: "am' = am2" "evs = evs1 @ evs2"
    by (auto split: option.splits)
  from invoke_frame [OF first] Cons.IH [OF rest] result show ?case
    by (auto simp add: count_list_0_iff)
qed

lemma world_discovering_ready:
  "(checkReadiness world_discovering (Suc (Suc (Suc 0))) example_gateway
      :: (error option \<times> Alertmanager \<times> unit event list) option)
   = Some (None, example_gateway\<lparr>ready := True\<rparr>,
           [HttpDo bare_request, LogDebug ''Alertmanager readiness check successful'', SetReady])"
proof -
  have 1: "NewRequestWithContext world_discovering ''GET''
             (TrimSuffix (url example_gateway) ''/'' @ readyEndpoint) None = Inr bare_request"
    by (simp add: NewRequestWithContext_def world_discovering_def world_answering_def
          url_Parse_control_def stringContainsCTLByte_def TrimSuffix_def example_gateway_def
          readyEndpoint_def bare_request_def)
  have 2: "httpClient_Do world_discovering example_gateway bare_request = Inr response_ok"
    by (simp add: httpClient_Do_def RoundTrip_def world_discovering_def world_answering_def Let_def)
  have 3: "checkReadiness_loop (Suc (Suc (Suc 0))) (sender_Alertmanagers world_discovering) 0 tickerPeriod 0
             = Some (None, 3, 300)"
    by (simp add: world_discovering_def world_answering_def tickerPeriod_def
          senderStartTimeout_def Let_def)
  show ?thesis
    using 1 2 3 by (simp add: checkReadiness_def Let_def response_ok_def closeBody_def)
qed

lemma example_calls_run:
  "\<exists>evs. invoke_all example_calls example_gateway = Some (example_gateway\<lparr>ready := True\<rparr>, evs)
      \<and> SetReady \<in> set evs"
  using world_discovering_ready
  by (simp add: example_calls_def ApplyConfig_def PutAlerts_def GetSilence_def
        panicking_binding_def example_gateway_def)

text \<open>
  C4. No call of a public method on a ready gateway leaves it not ready. Over any
  sequence of calls that all return, \<^verbatim>\<open>am.ready\<close> is assigned at most once; from a ready
  gateway it is never assigned and the gateway stays ready; and once it was assigned the
  gateway is ready. On a ready gateway \<^verbatim>\<open>ApplyConfig\<close> returns nil at once, with no
  effect (no request, no wait) and the gateway unchanged.
\<close>

theorem ready_one_way:
  "(\<forall>(c :: ('c, 'a, 's, 'g) call) am' evs. invoke c am = Some (am', evs) \<and> ready am \<longrightarrow> ready am') \<and>
   (\<forall>(cs :: ('c, 'a, 's, 'g) call list) am' evs. invoke_all cs am = Some (am', evs) \<longrightarrow>
      count_list evs SetReady \<le> 1 \<and>
      (ready am \<longrightarrow> ready am' \<and> SetReady \<notin> set evs) \<and>
      (SetReady \<in> set evs \<longrightarrow> ready am')) \<and>
   (ready am \<longrightarrow>
      (\<forall>(w :: 'c world) fuel.
         (ApplyConfig w fuel am :: (error option \<times> Alertmanager \<times> 'a event list) option)
           = Some (None, am, [])))"
proof (intro conjI allI impI)
  fix c :: "('c, 'a, 's, 'g) call" and am' evs
  assume "invoke c am = Some (am', evs) \<and> ready am"
  then show "ready am'"
    using invoke_frame [of c am am' evs] by auto
next
  fix cs :: "('c, 'a, 's, 'g) call list" and am' evs
  assume run: "invoke_all cs am = Some (am', evs)"
  note frame = invoke_all_frame [OF run]
  show "count_list evs SetReady \<le> 1"
    using frame by (auto simp add: count_list_0_iff)
  show "ready am'" if "ready am"
    using frame that by auto
  show "SetReady \<notin> set evs" if "ready am"
    using frame that by auto
  show "ready am'" if "SetReady \<in> set evs"
    using frame that by auto
next
  fix w :: "'c world" and fuel
  assume "ready am"
  then show "(ApplyConfig w fuel am :: (error option \<times> Alertmanager \<times> 'a event list) option)
           = Some (None, am, [])"
    by (simp add: ApplyConfig_def)
qed

theorem ready_one_way_witness:
  "(\<exists>am' evs. invoke_all example_calls example_gateway = Some (am', evs) \<and>
       SetReady \<in> set evs \<and> count_list evs SetReady \<le> 1 \<and> ready am') \<and>
   (ApplyConfig world_discovering 0 (example_gateway\<lparr>ready := True\<rparr>)
      :: (error option \<times> Alertmanager \<times> unit event list) option)
     = Some (None, example_gateway\<lparr>ready := True\<rparr>, [])"
proof -
  obtain evs where run: "invoke_all example_calls example_gateway
        = Some (example_gateway\<lparr>ready := True\<rparr>, evs)" and written: "SetReady \<in> set evs"
    using example_calls_run by blast
  have "count_list evs SetReady \<le> 1 \<and> ready (example_gateway\<lparr>ready := True\<rparr>)"
    using ready_one_way [of example_gateway, where ?'c = string and ?'a = unit and ?'s = unit and ?'g = unit]
      run written by blast
  moreover have "ready (example_gateway\<lparr>ready := True\<rparr>)"
    by simp
  then have "(ApplyConfig world_discovering 0 (example_gateway\<lparr>ready := True\<rparr>)
      :: (error option \<times> Alertmanager \<times> unit event list) option)
     = Some (None, example_gateway\<lparr>ready := True\<rparr>, [])"
    using ready_one_way [of "example_gateway\<lparr>ready := True\<rparr>",
        where ?'c = string and ?'a = unit and ?'s = unit and ?'g = unit]
    by blast
  ultimately show ?thesis
    using run written by blast
qed

end
